theory Spec2Isabelle
  imports Main "HOL-Library.Word"
begin

unbundle bit_operations_syntax

section \<open>Bytes and the digest of \<open>hashlib.sha256\<close>\<close>

text \<open>
  A Python \<open>bytes\<close> or \<open>bytearray\<close> object is a list of bytes. The generator signs its
  tokens with \<open>hashlib.sha256(...).digest()\<close>. \<open>hashlib\<close> belongs to Python's standard
  library; its digest is written out here as the SHA-256 standard (FIPS 180-4) defines it:
  the message is padded to a multiple of 64 bytes, cut into blocks, and every block is
  compressed into a state of eight 32-bit words. Lemma \<open>sha256_zero_payload\<close> below
  compares the definition with the output of \<open>hashlib\<close> on one message.
\<close>

type_synonym byte = "8 word"
type_synonym word32 = "32 word"

definition rotr :: "nat \<Rightarrow> word32 \<Rightarrow> word32" where
  "rotr n x = drop_bit n x OR push_bit (32 - n) x"

definition Ch :: "word32 \<Rightarrow> word32 \<Rightarrow> word32 \<Rightarrow> word32" where
  "Ch x y z = (x AND y) XOR (NOT x AND z)"

definition Maj :: "word32 \<Rightarrow> word32 \<Rightarrow> word32 \<Rightarrow> word32" where
  "Maj x y z = (x AND y) XOR (x AND z) XOR (y AND z)"

definition big_sigma0 :: "word32 \<Rightarrow> word32" where
  "big_sigma0 x = rotr 2 x XOR rotr 13 x XOR rotr 22 x"

definition big_sigma1 :: "word32 \<Rightarrow> word32" where
  "big_sigma1 x = rotr 6 x XOR rotr 11 x XOR rotr 25 x"

definition small_sigma0 :: "word32 \<Rightarrow> word32" where
  "small_sigma0 x = rotr 7 x XOR rotr 18 x XOR drop_bit 3 x"

definition small_sigma1 :: "word32 \<Rightarrow> word32" where
  "small_sigma1 x = rotr 17 x XOR rotr 19 x XOR drop_bit 10 x"

definition round_constants :: "word32 list" where
  "round_constants =
   [0x428A2F98, 0x71374491, 0xB5C0FBCF, 0xE9B5DBA5,
    0x3956C25B, 0x59F111F1, 0x923F82A4, 0xAB1C5ED5,
    0xD807AA98, 0x12835B01, 0x243185BE, 0x550C7DC3,
    0x72BE5D74, 0x80DEB1FE, 0x9BDC06A7, 0xC19BF174,
    0xE49B69C1, 0xEFBE4786, 0x0FC19DC6, 0x240CA1CC,
    0x2DE92C6F, 0x4A7484AA, 0x5CB0A9DC, 0x76F988DA,
    0x983E5152, 0xA831C66D, 0xB00327C8, 0xBF597FC7,
    0xC6E00BF3, 0xD5A79147, 0x06CA6351, 0x14292967,
    0x27B70A85, 0x2E1B2138, 0x4D2C6DFC, 0x53380D13,
    0x650A7354, 0x766A0ABB, 0x81C2C92E, 0x92722C85,
    0xA2BFE8A1, 0xA81A664B, 0xC24B8B70, 0xC76C51A3,
    0xD192E819, 0xD6990624, 0xF40E3585, 0x106AA070,
    0x19A4C116, 0x1E376C08, 0x2748774C, 0x34B0BCB5,
    0x391C0CB3, 0x4ED8AA4A, 0x5B9CCA4F, 0x682E6FF3,
    0x748F82EE, 0x78A5636F, 0x84C87814, 0x8CC70208,
    0x90BEFFFA, 0xA4506CEB, 0xBEF9A3F7, 0xC67178F2]"

type_synonym hash_state =
  "word32 \<times> word32 \<times> word32 \<times> word32 \<times> word32 \<times> word32 \<times> word32 \<times> word32"

definition initial_hash :: hash_state where
  "initial_hash =
   (0x6A09E667, 0xBB67AE85, 0x3C6EF372, 0xA54FF53A,
    0x510E527F, 0x9B05688C, 0x1F83D9AB, 0x5BE0CD19)"

definition word64_bytes :: "64 word \<Rightarrow> byte list" where
  "word64_bytes w = map (\<lambda>i. ucast (drop_bit (8 * (7 - i)) w)) [0..<8]"

definition pad :: "byte list \<Rightarrow> byte list" where
  "pad m = m @ [0x80] @ replicate ((119 - length m mod 64) mod 64) 0
             @ word64_bytes (of_nat (8 * length m))"

fun blocks :: "byte list \<Rightarrow> byte list list" where
  "blocks bs = (if bs = [] then [] else take 64 bs # blocks (drop 64 bs))"

declare blocks.simps [simp del]

definition be_word32 :: "byte list \<Rightarrow> word32" where
  "be_word32 bs = foldl (\<lambda>w b. push_bit 8 w OR ucast b) 0 bs"

definition block_words :: "byte list \<Rightarrow> word32 list" where
  "block_words b = map (\<lambda>i. be_word32 (take 4 (drop (4 * i) b))) [0..<16]"

fun schedule :: "nat \<Rightarrow> word32 list \<Rightarrow> word32 list" where
  "schedule 0 ws = ws"
| "schedule (Suc n) ws =
     schedule n (ws @ [small_sigma1 (ws ! (length ws - 2)) + ws ! (length ws - 7)
                       + small_sigma0 (ws ! (length ws - 15)) + ws ! (length ws - 16)])"

definition round_step :: "hash_state \<Rightarrow> word32 \<times> word32 \<Rightarrow> hash_state" where
  "round_step s kw =
     (case s of (a, b, c, d, e, f, g, h) \<Rightarrow>
        let t1 = h + big_sigma1 e + Ch e f g + fst kw + snd kw;
            t2 = big_sigma0 a + Maj a b c
        in (t1 + t2, a, b, c, d + t1, e, f, g))"

definition compress :: "hash_state \<Rightarrow> byte list \<Rightarrow> hash_state" where
  "compress s blk =
     (case s of (a, b, c, d, e, f, g, h) \<Rightarrow>
      case foldl round_step s (zip round_constants (schedule 48 (block_words blk))) of
        (a', b', c', d', e', f', g', h') \<Rightarrow>
          (a + a', b + b', c + c', d + d', e + e', f + f', g + g', h + h'))"

definition word32_bytes :: "word32 \<Rightarrow> byte list" where
  "word32_bytes w = [ucast (drop_bit 24 w), ucast (drop_bit 16 w), ucast (drop_bit 8 w), ucast w]"

definition sha256 :: "byte list \<Rightarrow> byte list" where
  "sha256 m =
     (case foldl compress initial_hash (blocks (pad m)) of
        (a, b, c, d, e, f, g, h) \<Rightarrow> concat (map word32_bytes [a, b, c, d, e, f, g, h]))"

section \<open>Python's \<open>int.to_bytes\<close> and \<open>int.from_bytes\<close>\<close>

text \<open>
  Python integers are unbounded. \<open>n.to_bytes(length, "little")\<close> (unsigned, the default)
  raises \<open>OverflowError\<close> when \<open>n\<close> is negative or does not fit in \<open>length\<close> bytes, and
  otherwise returns the \<open>length\<close> base-256 digits of \<open>n\<close>, least significant first. The
  class fixes \<open>BYTE_ORDER = "little"\<close>, so only that order is modelled. \<open>OverflowError\<close>
  is the only exception the class can raise on integer arguments. \<open>AttributeError\<close> is
  what Python raises when \<open>to_bytes\<close> is looked up on an object that has no such
  attribute, as a \<open>bytes\<close> or \<open>bytearray\<close> object.
\<close>

datatype error = OverflowError | AttributeError

fun little_endian :: "nat \<Rightarrow> int \<Rightarrow> byte list" where
  "little_endian 0 n = []"
| "little_endian (Suc k) n = word_of_int n # little_endian k (n div 256)"

definition to_bytes :: "int \<Rightarrow> nat \<Rightarrow> error + byte list" where
  "to_bytes n len =
     (if n < 0 \<or> 256 ^ len \<le> n then Inl OverflowError else Inr (little_endian len n))"

fun from_bytes :: "byte list \<Rightarrow> int" where
  "from_bytes [] = 0"
| "from_bytes (b # bs) = uint b + 256 * from_bytes bs"

section \<open>The class \<open>Flakely\<close>\<close>

definition COUNTER_SIZE :: nat where "COUNTER_SIZE = 2"
definition DEVICE_ID_SIZE :: nat where "DEVICE_ID_SIZE = 4"
definition IDENTIFIER_SIZE :: nat where "IDENTIFIER_SIZE = 4"
definition PROCESS_ID_SIZE :: nat where "PROCESS_ID_SIZE = 4"
definition SIGNATURE_SIZE :: nat where "SIGNATURE_SIZE = 32"
definition TICK_SIZE :: nat where "TICK_SIZE = 4"

text \<open>
  The instance: \<open>device\<close>, \<open>process\<close> and \<open>secret\<close> are set once by \<open>__init__\<close>;
  \<open>_last_generated\<close> and \<open>_generation_counter\<close> are the mutable sequencer state. All four
  numbers are Python integers, so nothing bounds them.
\<close>

record flakely =
  device :: int
  process :: int
  secret :: "byte list"
  last_generated :: int
  generation_counter :: int

text \<open>
  What \<open>__init__\<close> reads from its surroundings when an argument is \<open>None\<close>: the module
  constant \<open>os.P_PID\<close> and a draw of \<open>secrets.randbelow\<close>. \<open>os_getpid\<close> is the identifier
  the operating system gives the running process (what \<open>os.getpid()\<close> returns); the
  class never reads it.
\<close>

record environment =
  os_P_PID :: int
  os_getpid :: int
  secrets_randbelow :: "int \<Rightarrow> int"

definition use_if_set_else :: "'a option \<Rightarrow> (unit \<Rightarrow> 'a) \<Rightarrow> 'a" where
  "use_if_set_else v default' = (case v of None \<Rightarrow> default' () | Some x \<Rightarrow> x)"

text \<open>
  \<open>__init__\<close>. The secret is given as bytes: a \<open>str\<close> argument is replaced by
  \<open>secret.encode()\<close>, its UTF-8 bytes, before it is stored.
\<close>

definition Flakely_init ::
    "environment \<Rightarrow> int option \<Rightarrow> int option \<Rightarrow> byte list \<Rightarrow> flakely" where
  "Flakely_init env device_arg process_arg secret_arg =
     \<lparr> device = use_if_set_else device_arg (\<lambda>_. secrets_randbelow env (2 ^ 32)),
       process = use_if_set_else process_arg (\<lambda>_. os_P_PID env),
       secret = secret_arg,
       last_generated = 0,
       generation_counter = 0 \<rparr>"

definition get_signature :: "flakely \<Rightarrow> byte list \<Rightarrow> byte list" where
  "get_signature self flake = sha256 (flake @ secret self)"

definition update_counter :: "flakely \<Rightarrow> int \<Rightarrow> flakely" where
  "update_counter self tick =
     (if tick = last_generated self
      then self\<lparr>generation_counter := generation_counter self + 1\<rparr>
      else self\<lparr>last_generated := tick, generation_counter := 0\<rparr>)"

text \<open>
  \<open>generate_bytes\<close>. The argument \<open>tick\<close> is what \<open>self.get_tick()\<close>, that is
  \<open>int(time.time())\<close>, returns in this call. The instance is mutated by
  \<open>update_counter\<close> before any field is encoded, so the updated instance is returned
  whether or not an encoding raises. The five \<open>to_bytes\<close> calls run in the order of the
  source; the first one that raises ends the call.
\<close>

definition generate_bytes :: "flakely \<Rightarrow> int \<Rightarrow> int \<Rightarrow> flakely \<times> (error + byte list)" where
  "generate_bytes self0 tick identifier =
     (let self = update_counter self0 tick in
      (self,
       case to_bytes identifier IDENTIFIER_SIZE of Inl e \<Rightarrow> Inl e | Inr b1 \<Rightarrow>
       case to_bytes (generation_counter self) COUNTER_SIZE of Inl e \<Rightarrow> Inl e | Inr b2 \<Rightarrow>
       case to_bytes (process self) PROCESS_ID_SIZE of Inl e \<Rightarrow> Inl e | Inr b3 \<Rightarrow>
       case to_bytes (device self) DEVICE_ID_SIZE of Inl e \<Rightarrow> Inl e | Inr b4 \<Rightarrow>
       case to_bytes tick TICK_SIZE of Inl e \<Rightarrow> Inl e | Inr b5 \<Rightarrow>
         (let flake = b1 @ b2 @ b3 @ b4 @ b5 in Inr (flake @ get_signature self flake))))"

definition generate :: "flakely \<Rightarrow> int \<Rightarrow> int \<Rightarrow> flakely \<times> (error + int)" where
  "generate self tick identifier =
     (case generate_bytes self tick identifier of
        (self', Inl e) \<Rightarrow> (self', Inl e)
      | (self', Inr flake) \<Rightarrow> (self', Inr (from_bytes flake)))"

definition validate :: "flakely \<Rightarrow> int \<Rightarrow> error + bool" where
  "validate self flake =
     (let payload_size =
            COUNTER_SIZE + DEVICE_ID_SIZE + IDENTIFIER_SIZE + PROCESS_ID_SIZE + TICK_SIZE
      in case to_bytes flake (payload_size + SIGNATURE_SIZE) of
           Inl e \<Rightarrow> Inl e
         | Inr flake_bytes \<Rightarrow>
             (let payload = take payload_size flake_bytes;
                  signature = drop payload_size flake_bytes
              in Inr (signature = get_signature self payload)))"

text \<open>
  The parameter of \<open>validate\<close> is annotated \<open>int\<close>, and Python does not enforce the
  annotation. The class hands out a token in two forms: the number that \<open>generate\<close>
  returns and the \<open>bytearray\<close> that \<open>generate_bytes\<close> returns. The first statement of
  \<open>validate\<close> evaluates \<open>flake.to_bytes\<close>; a \<open>bytes\<close> or \<open>bytearray\<close> object has no
  attribute \<open>to_bytes\<close>, so on a token in bytes form the call raises \<open>AttributeError\<close>
  before anything else runs. On a number it is \<open>validate\<close> above.
\<close>

datatype token = Number int | Bytes "byte list"

definition validate_token :: "flakely \<Rightarrow> token \<Rightarrow> error + bool" where
  "validate_token self flake =
     (case flake of
        Number n \<Rightarrow> validate self n
      | Bytes bs \<Rightarrow> Inl AttributeError)"

section \<open>Sequences of calls and the fields of a token\<close>

text \<open>
  Calling \<open>generate_bytes\<close> once for every tick of a list, with the same identifier, on the
  same instance: the instance is threaded through the calls, and the first call that raises
  ends the sequence, as the exception would.
\<close>

fun generate_all :: "flakely \<Rightarrow> int list \<Rightarrow> int \<Rightarrow> flakely \<times> (error + byte list list)" where
  "generate_all self [] identifier = (self, Inr [])"
| "generate_all self (tick # ticks) identifier =
     (case generate_bytes self tick identifier of
        (self', Inl e) \<Rightarrow> (self', Inl e)
      | (self', Inr flake) \<Rightarrow>
          (case generate_all self' ticks identifier of
             (self'', Inl e) \<Rightarrow> (self'', Inl e)
           | (self'', Inr flakes) \<Rightarrow> (self'', Inr (flake # flakes))))"

text \<open>
  The fields of a token, read back at the offsets at which \<open>generate_bytes\<close> writes them:
  identifier, counter, process, device, tick, then the signature.
\<close>

definition identifier_field :: "byte list \<Rightarrow> int" where
  "identifier_field flake = from_bytes (take IDENTIFIER_SIZE flake)"

definition counter_field :: "byte list \<Rightarrow> int" where
  "counter_field flake = from_bytes (take COUNTER_SIZE (drop IDENTIFIER_SIZE flake))"

definition process_field :: "byte list \<Rightarrow> int" where
  "process_field flake =
     from_bytes (take PROCESS_ID_SIZE (drop (IDENTIFIER_SIZE + COUNTER_SIZE) flake))"

definition device_field :: "byte list \<Rightarrow> int" where
  "device_field flake =
     from_bytes (take DEVICE_ID_SIZE
       (drop (IDENTIFIER_SIZE + COUNTER_SIZE + PROCESS_ID_SIZE) flake))"

definition tick_field :: "byte list \<Rightarrow> int" where
  "tick_field flake =
     from_bytes (take TICK_SIZE
       (drop (IDENTIFIER_SIZE + COUNTER_SIZE + PROCESS_ID_SIZE + DEVICE_ID_SIZE) flake))"

definition signature_field :: "byte list \<Rightarrow> byte list" where
  "signature_field flake =
     drop (IDENTIFIER_SIZE + COUNTER_SIZE + PROCESS_ID_SIZE + DEVICE_ID_SIZE + TICK_SIZE) flake"

definition payload_field :: "byte list \<Rightarrow> byte list" where
  "payload_field flake =
     take (IDENTIFIER_SIZE + COUNTER_SIZE + PROCESS_ID_SIZE + DEVICE_ID_SIZE + TICK_SIZE) flake"

text \<open>The counter fields of the tokens a sequence of calls returned.\<close>

definition counter_fields :: "error + byte list list \<Rightarrow> error + int list" where
  "counter_fields r = (case r of Inl e \<Rightarrow> Inl e | Inr flakes \<Rightarrow> Inr (map counter_field flakes))"

text \<open>
  Every field that \<open>generate_bytes\<close> encodes fits its width: the identifier, the advanced
  counter, process, device and tick.
\<close>

definition fits :: "nat \<Rightarrow> int \<Rightarrow> bool" where
  "fits len n \<longleftrightarrow> 0 \<le> n \<and> n < 256 ^ len"

definition encodable :: "flakely \<Rightarrow> int \<Rightarrow> int \<Rightarrow> bool" where
  "encodable self tick identifier \<longleftrightarrow>
     fits IDENTIFIER_SIZE identifier \<and>
     fits COUNTER_SIZE (generation_counter (update_counter self tick)) \<and>
     fits PROCESS_ID_SIZE (process self) \<and>
     fits DEVICE_ID_SIZE (device self) \<and>
     fits TICK_SIZE tick"

text \<open>The 18 payload bytes of a token, in the order \<open>generate_bytes\<close> appends them.\<close>

definition payload_bytes :: "flakely \<Rightarrow> int \<Rightarrow> int \<Rightarrow> byte list" where
  "payload_bytes self tick identifier =
     little_endian IDENTIFIER_SIZE identifier
     @ little_endian COUNTER_SIZE (generation_counter self)
     @ little_endian PROCESS_ID_SIZE (process self)
     @ little_endian DEVICE_ID_SIZE (device self)
     @ little_endian TICK_SIZE tick"

text \<open>The token a successful call returns: the payload followed by its signature.\<close>

definition signed_token :: "flakely \<Rightarrow> int \<Rightarrow> int \<Rightarrow> byte list" where
  "signed_token self tick identifier =
     payload_bytes self tick identifier
     @ get_signature self (payload_bytes self tick identifier)"

section \<open>The digest\<close>

lemma length_word32_bytes [simp]: "length (word32_bytes w) = 4"
  by (simp add: word32_bytes_def)

lemma length_sha256 [simp]: "length (sha256 m) = 32"
  by (simp add: sha256_def split: prod.splits)

section \<open>Encoding and decoding integers\<close>

lemma length_little_endian [simp]: "length (little_endian k n) = k"
  by (induction k arbitrary: n) simp_all

lemma from_bytes_nonneg: "0 \<le> from_bytes bs"
  by (induction bs) simp_all

lemma from_bytes_bound: "from_bytes bs < 256 ^ length bs"
proof (induction bs)
  case Nil
  show ?case by simp
next
  case (Cons b bs)
  have "uint b < 256"
    using uint_bounded [of b] by simp
  with Cons show ?case by simp
qed

lemma from_bytes_little_endian:
  "0 \<le> n \<Longrightarrow> n < 256 ^ k \<Longrightarrow> from_bytes (little_endian k n) = n"
proof (induction k arbitrary: n)
  case 0
  then show ?case by simp
next
  case (Suc k)
  have "0 \<le> n div 256" "n div 256 < 256 ^ k"
    using Suc.prems by (simp_all add: div_less_iff_less_mult mult.commute)
  then have "from_bytes (little_endian k (n div 256)) = n div 256"
    by (rule Suc.IH)
  moreover have "uint (word_of_int n :: byte) = n mod 256"
    by (simp add: uint_word_of_int)
  ultimately show ?case by simp
qed

lemma byte_times_256: "(256 :: byte) * w = 0"
proof -
  have "(256 :: byte) = 0"
    by simp
  show ?thesis
    unfolding \<open>(256 :: byte) = 0\<close> by simp
qed

lemma little_endian_from_bytes: "little_endian (length bs) (from_bytes bs) = bs"
proof (induction bs)
  case Nil
  show ?case by simp
next
  case (Cons b bs)
  have b: "0 \<le> uint b" "uint b < 256"
    using uint_bounded [of b] by simp_all
  have "(word_of_int (uint b + 256 * from_bytes bs) :: byte) = b"
    by (simp add: byte_times_256)
  moreover have "(uint b + 256 * from_bytes bs) div 256 = from_bytes bs"
    using b by simp
  ultimately show ?case using Cons by simp
qed


text \<open>
  A check of the digest against \<open>hashlib\<close>: the SHA-256 digest of eighteen zero bytes (an
  all-zero payload with the empty secret).
\<close>

lemma sha256_zero_payload:
  "sha256 (replicate 18 0) =
     [0x60, 0xDA, 0xA3, 0xA5, 0xF7, 0xDB, 0xFA, 0x20, 0x0F, 0x8C, 0x82, 0x84, 0x0E, 0xCF, 0x5B, 0x42,
      0x64, 0x0B, 0x70, 0xF3, 0xB7, 0x21, 0x8A, 0x4C, 0x6B, 0xBD, 0x67, 0xDB, 0x54, 0x2E, 0x75, 0xA4]"
  by code_simp

section \<open>One call of \<open>generate_bytes\<close>, \<open>generate\<close> and \<open>validate\<close>\<close>

lemmas field_sizes =
  COUNTER_SIZE_def DEVICE_ID_SIZE_def IDENTIFIER_SIZE_def PROCESS_ID_SIZE_def
  SIGNATURE_SIZE_def TICK_SIZE_def

lemma little_endian_numeral:
  "little_endian (numeral k) n = word_of_int n # little_endian (pred_numeral k) (n div 256)"
  by (simp add: numeral_eq_Suc)

lemma to_bytes_fits: "fits len n \<Longrightarrow> to_bytes n len = Inr (little_endian len n)"
  by (auto simp: to_bytes_def fits_def)

lemma to_bytes_not_fits: "\<not> fits len n \<Longrightarrow> to_bytes n len = Inl OverflowError"
  by (auto simp: to_bytes_def fits_def)

lemma fits_from_bytes: "fits (length bs) (from_bytes bs)"
  by (simp add: fits_def from_bytes_nonneg from_bytes_bound)

lemma secret_update_counter [simp]: "secret (update_counter self tick) = secret self"
  by (simp add: update_counter_def)

lemma process_update_counter [simp]: "process (update_counter self tick) = process self"
  by (simp add: update_counter_def)

lemma device_update_counter [simp]: "device (update_counter self tick) = device self"
  by (simp add: update_counter_def)

lemma last_generated_update_counter [simp]:
  "last_generated (update_counter self tick) = tick"
  by (simp add: update_counter_def)

lemma get_signature_update_counter [simp]:
  "get_signature (update_counter self tick) = get_signature self"
  by (rule ext) (simp add: get_signature_def)

lemma update_counter_changes: "update_counter self tick \<noteq> self"
proof
  assume eq: "update_counter self tick = self"
  show False
  proof (cases "tick = last_generated self")
    case True
    then have "generation_counter (update_counter self tick) = generation_counter self + 1"
      by (simp add: update_counter_def)
    with eq show False by simp
  next
    case False
    have "last_generated (update_counter self tick) = tick"
      by simp
    with eq False show False by simp
  qed
qed

lemma length_payload_bytes [simp]: "length (payload_bytes self tick identifier) = 18"
  by (simp add: payload_bytes_def field_sizes)

lemma fst_generate_bytes [simp]:
  "fst (generate_bytes self tick identifier) = update_counter self tick"
  by (simp add: generate_bytes_def Let_def)

lemma generate_bytes_encodable:
  assumes "encodable self tick identifier"
  shows "generate_bytes self tick identifier =
           (update_counter self tick, Inr (signed_token (update_counter self tick) tick identifier))"
  using assms
  by (simp add: generate_bytes_def encodable_def Let_def to_bytes_fits payload_bytes_def
      signed_token_def)

lemma generate_bytes_not_encodable:
  assumes "\<not> encodable self tick identifier"
  shows "generate_bytes self tick identifier = (update_counter self tick, Inl OverflowError)"
proof -
  have "snd (generate_bytes self tick identifier) = Inl OverflowError"
    using assms
    by (cases "fits IDENTIFIER_SIZE identifier";
        cases "fits COUNTER_SIZE (generation_counter (update_counter self tick))";
        cases "fits PROCESS_ID_SIZE (process self)";
        cases "fits DEVICE_ID_SIZE (device self)";
        cases "fits TICK_SIZE tick")
       (simp_all add: generate_bytes_def encodable_def Let_def to_bytes_fits to_bytes_not_fits)
  then show ?thesis
    by (simp add: prod_eq_iff)
qed

lemma not_encodable_identifier:
  "identifier < 0 \<or> 2 ^ 32 \<le> identifier \<Longrightarrow> \<not> encodable self tick identifier"
  by (auto simp: encodable_def fits_def field_sizes)

lemma generate_eq:
  "generate self tick identifier =
     (update_counter self tick,
      case snd (generate_bytes self tick identifier) of
        Inl e \<Rightarrow> Inl e | Inr flake \<Rightarrow> Inr (from_bytes flake))"
proof -
  obtain r where "generate_bytes self tick identifier = (update_counter self tick, r)"
    by (metis fst_generate_bytes prod.collapse)
  then show ?thesis
    by (simp add: generate_def split: sum.splits)
qed

lemma validate_fits:
  assumes "fits 50 flake"
  shows "validate self flake =
           Inr (drop 18 (little_endian 50 flake)
                = get_signature self (take 18 (little_endian 50 flake)))"
  using assms by (simp add: validate_def field_sizes to_bytes_fits)

lemma validate_not_fits:
  assumes "\<not> fits 50 flake"
  shows "validate self flake = Inl OverflowError"
  using assms by (simp add: validate_def field_sizes to_bytes_not_fits)

lemma validate_from_bytes:
  assumes "length bs = 50"
  shows "validate self (from_bytes bs) = Inr (drop 18 bs = get_signature self (take 18 bs))"
proof -
  have "fits 50 (from_bytes bs)"
    using fits_from_bytes [of bs] assms by simp
  moreover have "little_endian 50 (from_bytes bs) = bs"
    using little_endian_from_bytes [of bs] assms by simp
  ultimately show ?thesis
    by (simp add: validate_fits)
qed

lemma validate_signed_token:
  "validate self' (from_bytes (signed_token self tick identifier))
     = Inr (get_signature self (payload_bytes self tick identifier)
            = get_signature self' (payload_bytes self tick identifier))"
proof -
  have "length (signed_token self tick identifier) = 50"
    by (simp add: signed_token_def get_signature_def)
  then show ?thesis
    by (simp add: validate_from_bytes) (simp add: signed_token_def)
qed

lemma pow_256_50: "(256 :: int) ^ 50 = 2 ^ 400"
  by simp

section \<open>The fields of a token and sequences of calls\<close>

lemma from_bytes_sum: "from_bytes bs = (\<Sum>i<length bs. uint (bs ! i) * 256 ^ i)"
proof (induction bs)
  case Nil
  show ?case by simp
next
  case (Cons b bs)
  show ?case
    by (simp add: Cons.IH sum.lessThan_Suc_shift sum_distrib_left mult.assoc mult.left_commute
        del: sum.lessThan_Suc)
qed

lemma little_endian_nth:
  "i < k \<Longrightarrow> little_endian k n ! i = word_of_int (n div 256 ^ i)"
proof (induction k arbitrary: n i)
  case 0
  then show ?case by simp
next
  case (Suc k)
  show ?case
  proof (cases i)
    case 0
    then show ?thesis by simp
  next
    case (Suc j)
    with Suc.prems have "j < k" by simp
    then have "little_endian k (n div 256) ! j = word_of_int (n div 256 div 256 ^ j)"
      by (rule Suc.IH)
    moreover have "n div 256 div 256 ^ j = n div 256 ^ Suc j"
      by (simp add: zdiv_zmult2_eq)
    ultimately show ?thesis
      using Suc by simp
  qed
qed

lemma identifier_field_signed_token:
  "fits IDENTIFIER_SIZE identifier \<Longrightarrow>
     identifier_field (signed_token self tick identifier) = identifier"
  by (simp add: identifier_field_def signed_token_def payload_bytes_def field_sizes
      fits_def from_bytes_little_endian)

lemma counter_field_signed_token:
  "fits COUNTER_SIZE (generation_counter self) \<Longrightarrow>
     counter_field (signed_token self tick identifier) = generation_counter self"
  by (simp add: counter_field_def signed_token_def payload_bytes_def field_sizes
      fits_def from_bytes_little_endian)

lemma process_field_signed_token:
  "fits PROCESS_ID_SIZE (process self) \<Longrightarrow>
     process_field (signed_token self tick identifier) = process self"
  by (simp add: process_field_def signed_token_def payload_bytes_def field_sizes
      fits_def from_bytes_little_endian)

lemma device_field_signed_token:
  "fits DEVICE_ID_SIZE (device self) \<Longrightarrow>
     device_field (signed_token self tick identifier) = device self"
  by (simp add: device_field_def signed_token_def payload_bytes_def field_sizes
      fits_def from_bytes_little_endian)

lemma tick_field_signed_token:
  "fits TICK_SIZE tick \<Longrightarrow> tick_field (signed_token self tick identifier) = tick"
  by (simp add: tick_field_def signed_token_def payload_bytes_def field_sizes
      fits_def from_bytes_little_endian)

lemma payload_field_signed_token [simp]:
  "payload_field (signed_token self tick identifier) = payload_bytes self tick identifier"
  by (simp add: payload_field_def signed_token_def field_sizes)

lemma signature_field_signed_token [simp]:
  "signature_field (signed_token self tick identifier)
     = get_signature self (payload_bytes self tick identifier)"
  by (simp add: signature_field_def signed_token_def field_sizes)

lemma length_signed_token [simp]: "length (signed_token self tick identifier) = 50"
  by (simp add: signed_token_def get_signature_def)

lemma generate_bytes_Inr:
  assumes "snd (generate_bytes self tick identifier) = Inr flake"
  shows "encodable self tick identifier"
    and "flake = signed_token (update_counter self tick) tick identifier"
proof -
  show enc: "encodable self tick identifier"
  proof (rule ccontr)
    assume "\<not> encodable self tick identifier"
    then have "snd (generate_bytes self tick identifier) = Inl OverflowError"
      by (simp add: generate_bytes_not_encodable)
    with assms show False by simp
  qed
  show "flake = signed_token (update_counter self tick) tick identifier"
    using assms generate_bytes_encodable [OF enc] by simp
qed


lemma update_counter_same_tick:
  "last_generated self = tick \<Longrightarrow>
     update_counter self tick = self\<lparr>generation_counter := generation_counter self + 1\<rparr>"
  by (simp add: update_counter_def)

lemma update_counter_new_tick:
  "last_generated self \<noteq> tick \<Longrightarrow>
     update_counter self tick = self\<lparr>last_generated := tick, generation_counter := 0\<rparr>"
  by (auto simp: update_counter_def)


lemma generate_all_same_tick:
  assumes "fits IDENTIFIER_SIZE identifier"
      and "fits PROCESS_ID_SIZE (process self)"
      and "fits DEVICE_ID_SIZE (device self)"
      and "fits TICK_SIZE tick"
      and "0 \<le> generation_counter (update_counter self tick)"
      and "generation_counter (update_counter self tick) + int n \<le> 65536"
  shows "generate_all self (replicate n tick) identifier =
     (if n = 0 then self
      else (update_counter self tick)
             \<lparr>generation_counter := generation_counter (update_counter self tick) + int n - 1\<rparr>,
      Inr (map (\<lambda>k. signed_token
                      ((update_counter self tick)
                         \<lparr>generation_counter :=
                            generation_counter (update_counter self tick) + int k\<rparr>)
                      tick identifier)
             [0..<n]))"
  using assms
proof (induction n arbitrary: self)
  case 0
  show ?case by simp
next
  case (Suc n)
  let ?s = "update_counter self tick"
  let ?b = "generation_counter ?s"
  have enc: "encodable self tick identifier"
    using Suc.prems by (simp add: encodable_def fits_def field_sizes)
  have first: "generate_bytes self tick identifier = (?s, Inr (signed_token ?s tick identifier))"
    using enc by (rule generate_bytes_encodable)
  have next_state: "update_counter ?s tick = ?s\<lparr>generation_counter := ?b + 1\<rparr>"
    by (simp add: update_counter_same_tick)
  have rest: "generate_all ?s (replicate n tick) identifier =
     (if n = 0 then ?s
      else (update_counter ?s tick)
             \<lparr>generation_counter := generation_counter (update_counter ?s tick) + int n - 1\<rparr>,
      Inr (map (\<lambda>k. signed_token
                      ((update_counter ?s tick)
                         \<lparr>generation_counter :=
                            generation_counter (update_counter ?s tick) + int k\<rparr>)
                      tick identifier)
             [0..<n]))"
    using Suc.prems by (intro Suc.IH) (simp_all add: next_state)
  have tokens: "map (\<lambda>k. signed_token (?s\<lparr>generation_counter := ?b + int k\<rparr>) tick identifier)
                  [0..<Suc n]
        = signed_token ?s tick identifier
          # map (\<lambda>k. signed_token (?s\<lparr>generation_counter := ?b + 1 + int k\<rparr>) tick identifier)
              [0..<n]"
    by (simp add: map_upt_Suc add.assoc del: upt_Suc)
  show ?case
    unfolding replicate_Suc generate_all.simps first tokens
    by (simp add: rest next_state add.assoc)
qed


lemma generate_bytes_counter_full:
  assumes "last_generated self = tick" and "65535 \<le> generation_counter self"
  shows "generate_bytes self tick identifier =
           (self\<lparr>generation_counter := generation_counter self + 1\<rparr>, Inl OverflowError)"
proof -
  have "\<not> encodable self tick identifier"
    using assms by (simp add: encodable_def fits_def field_sizes update_counter_same_tick)
  then show ?thesis
    using assms(1) by (simp add: generate_bytes_not_encodable update_counter_same_tick)
qed

lemma generate_all_65536:
  assumes "last_generated self \<noteq> tick"
      and "fits IDENTIFIER_SIZE identifier"
      and "fits PROCESS_ID_SIZE (process self)"
      and "fits DEVICE_ID_SIZE (device self)"
      and "fits TICK_SIZE tick"
  shows "generate_all self (replicate 65536 tick) identifier =
           (self\<lparr>last_generated := tick, generation_counter := 65535\<rparr>,
            Inr (map (\<lambda>k. signed_token
                            (self\<lparr>last_generated := tick, generation_counter := int k\<rparr>)
                            tick identifier)
                   [0..<65536]))"
  using generate_all_same_tick [OF assms(2) assms(3) assms(4) assms(5), of 65536] assms(1)
  by (simp add: update_counter_new_tick)


lemma little_endian_zero: "little_endian k 0 = replicate k 0"
  by (induction k) simp_all

lemma encodable_iff:
  "encodable self tick identifier \<longleftrightarrow>
     (0 \<le> identifier \<and> identifier < 2 ^ 32)
     \<and> (0 \<le> generation_counter (update_counter self tick)
        \<and> generation_counter (update_counter self tick) < 2 ^ 16)
     \<and> (0 \<le> process self \<and> process self < 2 ^ 32)
     \<and> (0 \<le> device self \<and> device self < 2 ^ 32)
     \<and> (0 \<le> tick \<and> tick < 2 ^ 32)"
  by (simp add: encodable_def fits_def field_sizes)

section \<open>The claims\<close>

subsection \<open>C1: a generated token validates\<close>

text \<open>
  C1, as amended. The claim reads: for every generator instance and every identifier in
  \<open>[0, 2^32)\<close>, \<open>generate\<close> (or \<open>generate_bytes\<close>) followed by \<open>validate\<close> on the resulting
  token, with the same instance, returns true. Two things stand against it. \<open>generate\<close>
  raises \<open>OverflowError\<close> when process, device or tick does not fit four unsigned bytes,
  or the counter left by \<open>update_counter\<close> does not fit two. And \<open>validate\<close> takes the
  number that \<open>generate\<close> returns: on the bytes that \<open>generate_bytes\<close> returns it raises
  \<open>AttributeError\<close>. What holds: when the identifier, process, device and tick lie in
  \<open>[0, 2^32)\<close> and the advanced counter lies in \<open>[0, 2^16)\<close>, \<open>generate\<close> returns a number
  and \<open>validate\<close>, on the same instance, returns \<open>True\<close> for it; whenever \<open>generate\<close>
  returns a number at all, \<open>validate\<close> returns \<open>True\<close> for it. \<open>generate_bytes\<close> returns, in
  the same cases, the 50 bytes of which that number is the little-endian value
  (\<open>int.from_bytes\<close> of them): \<open>validate\<close> returns \<open>True\<close> for that number and raises
  \<open>AttributeError\<close> on the bytes themselves.
\<close>

theorem generate_then_validate:
  "((0 \<le> identifier \<and> identifier < 2 ^ 32)
    \<and> (0 \<le> generation_counter (update_counter self tick)
       \<and> generation_counter (update_counter self tick) < 2 ^ 16)
    \<and> (0 \<le> process self \<and> process self < 2 ^ 32)
    \<and> (0 \<le> device self \<and> device self < 2 ^ 32)
    \<and> (0 \<le> tick \<and> tick < 2 ^ 32)
    \<longrightarrow> (\<exists>flake. generate_bytes self tick identifier = (update_counter self tick, Inr flake)
           \<and> length flake = 50
           \<and> generate self tick identifier = (update_counter self tick, Inr (from_bytes flake))
           \<and> validate (update_counter self tick) (from_bytes flake) = Inr True
           \<and> validate_token (update_counter self tick) (Number (from_bytes flake)) = Inr True
           \<and> validate_token (update_counter self tick) (Bytes flake) = Inl AttributeError))
   \<and> (\<forall>n. snd (generate self tick identifier) = Inr n \<longrightarrow>
         validate (fst (generate self tick identifier)) n = Inr True
         \<and> validate_token (fst (generate self tick identifier)) (Number n) = Inr True)
   \<and> (\<forall>flake. snd (generate_bytes self tick identifier) = Inr flake \<longrightarrow>
         length flake = 50
         \<and> snd (generate self tick identifier) = Inr (from_bytes flake)
         \<and> validate (fst (generate_bytes self tick identifier)) (from_bytes flake) = Inr True
         \<and> validate_token (fst (generate_bytes self tick identifier)) (Bytes flake)
             = Inl AttributeError)"
proof (intro conjI impI allI)
  let ?s = "update_counter self tick"
  let ?flake = "signed_token ?s tick identifier"
  assume "(0 \<le> identifier \<and> identifier < 2 ^ 32)
    \<and> (0 \<le> generation_counter ?s \<and> generation_counter ?s < 2 ^ 16)
    \<and> (0 \<le> process self \<and> process self < 2 ^ 32)
    \<and> (0 \<le> device self \<and> device self < 2 ^ 32)
    \<and> (0 \<le> tick \<and> tick < 2 ^ 32)"
  then have enc: "encodable self tick identifier"
    by (simp only: encodable_iff)
  have gb: "generate_bytes self tick identifier = (?s, Inr ?flake)"
    using enc by (rule generate_bytes_encodable)
  have "generate self tick identifier = (?s, Inr (from_bytes ?flake))"
    by (simp add: generate_eq gb)
  moreover have "validate ?s (from_bytes ?flake) = Inr True"
    by (simp add: validate_signed_token)
  moreover from this have "validate_token ?s (Number (from_bytes ?flake)) = Inr True"
    by (simp add: validate_token_def)
  moreover have "validate_token ?s (Bytes ?flake) = Inl AttributeError"
    by (simp add: validate_token_def)
  moreover have "length ?flake = 50"
    by simp
  ultimately show "\<exists>flake. generate_bytes self tick identifier = (?s, Inr flake)
         \<and> length flake = 50
         \<and> generate self tick identifier = (?s, Inr (from_bytes flake))
         \<and> validate ?s (from_bytes flake) = Inr True
         \<and> validate_token ?s (Number (from_bytes flake)) = Inr True
         \<and> validate_token ?s (Bytes flake) = Inl AttributeError"
    using gb by blast
next
  fix n
  assume run: "snd (generate self tick identifier) = Inr n"
  then obtain flake where bytes: "snd (generate_bytes self tick identifier) = Inr flake"
    and n: "n = from_bytes flake"
    by (auto simp: generate_eq split: sum.splits)
  from bytes have "flake = signed_token (update_counter self tick) tick identifier"
    by (rule generate_bytes_Inr)
  then show valid: "validate (fst (generate self tick identifier)) n = Inr True"
    by (simp add: n generate_eq validate_signed_token)
  then show "validate_token (fst (generate self tick identifier)) (Number n) = Inr True"
    by (simp add: validate_token_def)
next
  fix flake
  assume run: "snd (generate_bytes self tick identifier) = Inr flake"
  then have flake: "flake = signed_token (update_counter self tick) tick identifier"
    by (rule generate_bytes_Inr)
  show "length flake = 50"
    by (simp add: flake)
  show "snd (generate self tick identifier) = Inr (from_bytes flake)"
    by (simp add: generate_eq run)
  show "validate (fst (generate_bytes self tick identifier)) (from_bytes flake) = Inr True"
    by (simp add: flake validate_signed_token)
  show "validate_token (fst (generate_bytes self tick identifier)) (Bytes flake)
          = Inl AttributeError"
    by (simp add: validate_token_def)
qed

text \<open>
  The theorem at an instance with the secret \<open>b"s3"\<close>, on its first call, at tick
  1700000000 with identifier 7.
\<close>

theorem generate_then_validate_witness:
  "validate
     \<lparr>device = 1, process = 2, secret = [115, 51], last_generated = 1700000000,
        generation_counter = 0\<rparr>
     (from_bytes
        (signed_token \<lparr>device = 1, process = 2, secret = [115, 51],
                        last_generated = 1700000000, generation_counter = 0\<rparr> 1700000000 7))
     = Inr True
   \<and> generate \<lparr>device = 1, process = 2, secret = [115, 51], last_generated = 0,
                 generation_counter = 0\<rparr> 1700000000 7
     = (\<lparr>device = 1, process = 2, secret = [115, 51], last_generated = 1700000000,
          generation_counter = 0\<rparr>,
        Inr (from_bytes
          (signed_token \<lparr>device = 1, process = 2, secret = [115, 51],
                          last_generated = 1700000000, generation_counter = 0\<rparr> 1700000000 7)))
   \<and> validate_token
       \<lparr>device = 1, process = 2, secret = [115, 51], last_generated = 1700000000,
          generation_counter = 0\<rparr>
       (Bytes
          (signed_token \<lparr>device = 1, process = 2, secret = [115, 51],
                          last_generated = 1700000000, generation_counter = 0\<rparr> 1700000000 7))
     = Inl AttributeError"
proof -
  let ?g = "\<lparr>device = 1, process = 2, secret = [115, 51], last_generated = 0,
             generation_counter = 0\<rparr>"
  let ?g' = "\<lparr>device = 1, process = 2, secret = [115, 51], last_generated = 1700000000,
              generation_counter = 0\<rparr>"
  have upd: "update_counter ?g 1700000000 = ?g'"
    by (simp add: update_counter_def)
  have enc: "encodable ?g 1700000000 7"
    by (simp add: encodable_iff upd)
  have pre: "(0 \<le> (7 :: int) \<and> (7 :: int) < 2 ^ 32)
    \<and> (0 \<le> generation_counter (update_counter ?g 1700000000)
       \<and> generation_counter (update_counter ?g 1700000000) < 2 ^ 16)
    \<and> (0 \<le> process ?g \<and> process ?g < 2 ^ 32)
    \<and> (0 \<le> device ?g \<and> device ?g < 2 ^ 32)
    \<and> (0 \<le> (1700000000 :: int) \<and> (1700000000 :: int) < 2 ^ 32)"
    by (simp add: upd)
  from generate_then_validate [of 7 ?g 1700000000] pre
  obtain flake where gb: "generate_bytes ?g 1700000000 7 = (?g', Inr flake)"
    and g: "generate ?g 1700000000 7 = (?g', Inr (from_bytes flake))"
    and v: "validate ?g' (from_bytes flake) = Inr True"
    and b: "validate_token ?g' (Bytes flake) = Inl AttributeError"
    unfolding upd by blast
  have "flake = signed_token ?g' 1700000000 7"
    using gb by (simp add: generate_bytes_encodable [OF enc] upd)
  then show ?thesis
    using g v b by simp
qed

text \<open>
  Where the claim fails. First, a fresh instance with every field in range and the
  identifier 7 makes 65536 calls at tick 1700000000. They succeed and leave the counter at
  65535. The next call at that tick advances the counter to 65536, which does not fit two
  bytes: \<open>generate\<close> raises \<open>OverflowError\<close>, so there is no token and \<open>validate\<close> is never
  reached. Second, the first call of \<open>generate_bytes\<close> on that fresh instance returns 50
  bytes, and \<open>validate\<close> on these bytes raises \<open>AttributeError\<close> instead of returning true.
\<close>

theorem generate_then_validate_counterexample:
  "fst (generate_all \<lparr>device = 1, process = 2, secret = [], last_generated = 0,
                       generation_counter = 0\<rparr> (replicate 65536 1700000000) 7)
     = \<lparr>device = 1, process = 2, secret = [], last_generated = 1700000000,
         generation_counter = 65535\<rparr>
   \<and> snd (generate \<lparr>device = 1, process = 2, secret = [], last_generated = 1700000000,
                      generation_counter = 65535\<rparr> 1700000000 7)
     = Inl OverflowError
   \<and> generate_bytes \<lparr>device = 1, process = 2, secret = [], last_generated = 0,
                       generation_counter = 0\<rparr> 1700000000 7
     = (\<lparr>device = 1, process = 2, secret = [], last_generated = 1700000000,
          generation_counter = 0\<rparr>,
        Inr (signed_token \<lparr>device = 1, process = 2, secret = [], last_generated = 1700000000,
                            generation_counter = 0\<rparr> 1700000000 7))
   \<and> validate_token
       \<lparr>device = 1, process = 2, secret = [], last_generated = 1700000000,
          generation_counter = 0\<rparr>
       (Bytes (signed_token \<lparr>device = 1, process = 2, secret = [],
                              last_generated = 1700000000, generation_counter = 0\<rparr>
                 1700000000 7))
     = Inl AttributeError"
proof -
  let ?g = "\<lparr>device = 1, process = 2, secret = [], last_generated = 0, generation_counter = 0\<rparr>"
  let ?g' = "\<lparr>device = 1, process = 2, secret = [], last_generated = 1700000000,
              generation_counter = 0\<rparr>"
  have pre: "last_generated ?g \<noteq> 1700000000" "fits IDENTIFIER_SIZE 7"
    "fits PROCESS_ID_SIZE (process ?g)" "fits DEVICE_ID_SIZE (device ?g)"
    "fits TICK_SIZE 1700000000"
    by (simp_all add: fits_def field_sizes)
  have many: "fst (generate_all ?g (replicate 65536 1700000000) 7)
          = ?g\<lparr>last_generated := 1700000000, generation_counter := 65535\<rparr>"
    unfolding generate_all_65536 [OF pre] by simp
  have upd: "update_counter ?g 1700000000 = ?g'"
    by (simp add: update_counter_def)
  have "encodable ?g 1700000000 7"
    by (simp add: encodable_iff upd)
  then have first: "generate_bytes ?g 1700000000 7 = (?g', Inr (signed_token ?g' 1700000000 7))"
    by (simp add: generate_bytes_encodable upd)
  have bytes: "validate_token ?g' (Bytes (signed_token ?g' 1700000000 7)) = Inl AttributeError"
    by (simp add: validate_token_def)
  from many first bytes show ?thesis
    by (simp add: generate_eq generate_bytes_counter_full)
qed

subsection \<open>C2: the counters of the calls of one tick\<close>

text \<open>
  C2, as amended. The claim reads: for a fixed instance and identifier, \<open>N < 65536\<close> calls
  of \<open>generate\<close> during which \<open>get_tick\<close> returns the same value yield \<open>N\<close> tokens whose
  counter fields are \<open>0..N-1\<close> in call order, with identical identifier, process, device
  and tick fields. The counter restarts at 0 only when the tick differs from the stored
  \<open>_last_generated\<close>. What holds: when the stored \<open>_last_generated\<close> differs from the tick
  before the first call, and the identifier, process, device and tick lie in \<open>[0, 2^32)\<close>,
  the \<open>N\<close> calls return \<open>N\<close> tokens, the \<open>k\<close>-th of which (from 0) has the counter field
  \<open>k\<close> and the identifier, process, device and tick of the call.
\<close>

theorem same_tick_counters:
  assumes "last_generated self \<noteq> tick"
      and "0 \<le> identifier" and "identifier < 2 ^ 32"
      and "0 \<le> process self" and "process self < 2 ^ 32"
      and "0 \<le> device self" and "device self < 2 ^ 32"
      and "0 \<le> tick" and "tick < 2 ^ 32"
      and "N < 65536"
  shows "\<exists>flakes. snd (generate_all self (replicate N tick) identifier) = Inr flakes
           \<and> length flakes = N
           \<and> (\<forall>k<N. counter_field (flakes ! k) = int k
                    \<and> identifier_field (flakes ! k) = identifier
                    \<and> process_field (flakes ! k) = process self
                    \<and> device_field (flakes ! k) = device self
                    \<and> tick_field (flakes ! k) = tick)"
proof -
  let ?s = "update_counter self tick"
  let ?flakes = "map (\<lambda>k. signed_token (?s\<lparr>generation_counter := int k\<rparr>) tick identifier) [0..<N]"
  have fit: "fits IDENTIFIER_SIZE identifier" "fits PROCESS_ID_SIZE (process self)"
    "fits DEVICE_ID_SIZE (device self)" "fits TICK_SIZE tick"
    using assms by (simp_all add: fits_def field_sizes)
  have zero: "generation_counter ?s = 0"
    using assms(1) by (simp add: update_counter_new_tick)
  have "generate_all self (replicate N tick) identifier =
          (if N = 0 then self else ?s\<lparr>generation_counter := int N - 1\<rparr>, Inr ?flakes)"
    using generate_all_same_tick [OF fit, of N] \<open>N < 65536\<close>
    by (simp add: zero)
  then have "snd (generate_all self (replicate N tick) identifier) = Inr ?flakes"
    by simp
  moreover have "length ?flakes = N"
    by simp
  moreover have "counter_field (?flakes ! k) = int k
                    \<and> identifier_field (?flakes ! k) = identifier
                    \<and> process_field (?flakes ! k) = process self
                    \<and> device_field (?flakes ! k) = device self
                    \<and> tick_field (?flakes ! k) = tick" if "k < N" for k
  proof -
    have "fits COUNTER_SIZE (int k)"
      using that \<open>N < 65536\<close> by (simp add: fits_def field_sizes)
    then show ?thesis
      using that fit
      by (simp add: counter_field_signed_token identifier_field_signed_token
          process_field_signed_token device_field_signed_token tick_field_signed_token)
  qed
  ultimately show ?thesis
    by blast
qed

text \<open>Three calls of a fresh instance at tick 1700000000: the counter fields are 0, 1, 2.\<close>

theorem same_tick_counters_witness:
  "counter_fields
     (snd (generate_all \<lparr>device = 1, process = 2, secret = [], last_generated = 0,
                         generation_counter = 0\<rparr>
             (replicate 3 1700000000) 7))
     = Inr [0, 1, 2]"
proof -
  let ?g = "\<lparr>device = 1, process = 2, secret = [], last_generated = 0, generation_counter = 0\<rparr>"
  have pre: "last_generated ?g \<noteq> 1700000000"
    "0 \<le> (7 :: int)" "(7 :: int) < 2 ^ 32"
    "0 \<le> process ?g" "process ?g < 2 ^ 32"
    "0 \<le> device ?g" "device ?g < 2 ^ 32"
    "0 \<le> (1700000000 :: int)" "(1700000000 :: int) < 2 ^ 32"
    "(3 :: nat) < 65536"
    by simp_all
  from same_tick_counters [OF pre]
  obtain flakes where run: "snd (generate_all ?g (replicate 3 1700000000) 7) = Inr flakes"
    and len: "length flakes = 3"
    and fields: "\<And>k. k < 3 \<Longrightarrow> counter_field (flakes ! k) = int k"
    by blast
  from len obtain a b c where abc: "flakes = [a, b, c]"
    by (auto simp: numeral_3_eq_3 length_Suc_conv)
  have "counter_field a = 0" "counter_field b = 1" "counter_field c = 2"
    using fields [of 0] fields [of 1] fields [of 2] by (simp_all add: abc)
  then show ?thesis
    by (simp add: counter_fields_def run abc)
qed

text \<open>
  Where the claim fails. A freshly constructed instance stores \<open>_last_generated = 0\<close>, so
  its first call at tick 0 takes the branch that increments: the one token of one call has
  the counter field 1, not 0. And an instance that has already generated once at tick
  1700000000 (the counter is 0, the tick is stored) answers two more calls at that tick
  with the counter fields 1 and 2, not 0 and 1.
\<close>

theorem same_tick_counters_counterexample:
  "counter_fields
     (snd (generate_all \<lparr>device = 1, process = 2, secret = [], last_generated = 0,
                         generation_counter = 0\<rparr>
             [0] 7))
     = Inr [1]
   \<and> counter_fields
     (snd (generate_all \<lparr>device = 1, process = 2, secret = [], last_generated = 1700000000,
                         generation_counter = 0\<rparr>
             [1700000000, 1700000000] 7))
     = Inr [1, 2]"
  by (simp add: counter_fields_def generate_bytes_encodable encodable_iff
      update_counter_def counter_field_signed_token fits_def field_sizes)

subsection \<open>C3: more than 65536 calls in one tick\<close>




subsection \<open>C4: \<open>update_counter\<close> and the counter after a change of tick\<close>

text \<open>
  C4. \<open>update_counter\<close> adds exactly one to the counter when the tick equals the stored
  \<open>_last_generated\<close>, and otherwise stores the tick and resets the counter to 0. So when the
  ticks of two consecutive calls of \<open>generate_bytes\<close> differ (the second may be smaller),
  the second call leaves the counter at 0 whatever it was before, and the token it returns,
  if any, is the 50-byte token of the second call with the counter 0: its bytes 4 and 5,
  the counter field, are both zero, around them stand the identifier, process, device and
  tick of the second call, and the signature is that of this payload. The second call
  does return a token when the identifier, process, device and tick lie in \<open>[0, 2^32)\<close>.
\<close>

theorem update_counter_behaviour:
  "(tick = last_generated self \<longrightarrow>
      update_counter self tick = self\<lparr>generation_counter := generation_counter self + 1\<rparr>)
   \<and> (tick \<noteq> last_generated self \<longrightarrow>
      update_counter self tick = self\<lparr>last_generated := tick, generation_counter := 0\<rparr>)
   \<and> (tick2 \<noteq> tick1 \<longrightarrow>
        generation_counter
          (fst (generate_bytes (fst (generate_bytes self tick1 identifier1)) tick2 identifier2)) = 0
        \<and> (\<forall>flake. snd (generate_bytes (fst (generate_bytes self tick1 identifier1))
                          tick2 identifier2) = Inr flake
               \<longrightarrow> counter_field flake = 0
                 \<and> length flake = 50
                 \<and> take 2 (drop 4 flake) = [0, 0]
                 \<and> flake = little_endian 4 identifier2 @ [0, 0]
                           @ little_endian 4 (process self)
                           @ little_endian 4 (device self)
                           @ little_endian 4 tick2
                           @ signature_field flake
                 \<and> signature_field flake = sha256 (payload_field flake @ secret self))
        \<and> ((0 \<le> identifier2 \<and> identifier2 < 2 ^ 32)
             \<and> (0 \<le> process self \<and> process self < 2 ^ 32)
             \<and> (0 \<le> device self \<and> device self < 2 ^ 32)
             \<and> (0 \<le> tick2 \<and> tick2 < 2 ^ 32)
             \<longrightarrow> (\<exists>flake. snd (generate_bytes (fst (generate_bytes self tick1 identifier1))
                              tick2 identifier2) = Inr flake)))"
proof (intro conjI impI allI)
  show "update_counter self tick = self\<lparr>generation_counter := generation_counter self + 1\<rparr>"
    if "tick = last_generated self"
    using that by (simp add: update_counter_same_tick)
  show "update_counter self tick = self\<lparr>last_generated := tick, generation_counter := 0\<rparr>"
    if "tick \<noteq> last_generated self"
    using that by (simp add: update_counter_new_tick)
next
  assume differ: "tick2 \<noteq> tick1"
  let ?s1 = "update_counter self tick1"
  let ?s2 = "update_counter ?s1 tick2"
  have "?s2 = ?s1\<lparr>last_generated := tick2, generation_counter := 0\<rparr>"
    using differ by (simp add: update_counter_new_tick)
  then have zero: "generation_counter ?s2 = 0"
    by simp
  have two_zeros: "little_endian 2 0 = [0, 0]"
    by (simp add: little_endian_numeral)
  show "generation_counter
          (fst (generate_bytes (fst (generate_bytes self tick1 identifier1)) tick2 identifier2)) = 0"
    using zero by simp
  {
    fix flake
    assume "snd (generate_bytes (fst (generate_bytes self tick1 identifier1)) tick2 identifier2)
          = Inr flake"
    then have "snd (generate_bytes ?s1 tick2 identifier2) = Inr flake"
      by simp
    then have flake: "flake = signed_token ?s2 tick2 identifier2"
      by (rule generate_bytes_Inr)
    show "counter_field flake = 0"
      by (simp add: flake counter_field_signed_token zero fits_def)
    show "length flake = 50"
      by (simp add: flake)
    show "take 2 (drop 4 flake) = [0, 0]"
      by (simp add: flake signed_token_def payload_bytes_def field_sizes zero two_zeros)
    show "flake = little_endian 4 identifier2 @ [0, 0]
                           @ little_endian 4 (process self)
                           @ little_endian 4 (device self)
                           @ little_endian 4 tick2
                           @ signature_field flake"
      unfolding flake signature_field_signed_token
      by (simp add: signed_token_def payload_bytes_def field_sizes zero two_zeros)
    show "signature_field flake = sha256 (payload_field flake @ secret self)"
      by (simp add: flake get_signature_def)
  }
  show "\<exists>flake. snd (generate_bytes (fst (generate_bytes self tick1 identifier1))
                              tick2 identifier2) = Inr flake"
    if "(0 \<le> identifier2 \<and> identifier2 < 2 ^ 32)
             \<and> (0 \<le> process self \<and> process self < 2 ^ 32)
             \<and> (0 \<le> device self \<and> device self < 2 ^ 32)
             \<and> (0 \<le> tick2 \<and> tick2 < 2 ^ 32)"
  proof -
    have "encodable ?s1 tick2 identifier2"
      using that by (simp add: encodable_iff zero)
    then show ?thesis
      by (simp add: generate_bytes_encodable)
  qed
qed

text \<open>
  An instance whose counter is 41 at tick 1700000005: the same tick gives 42; the smaller
  tick 1700000000 resets the counter, and the token of the second call has 50 bytes, the
  counter bytes \<open>[0, 0]\<close> and the counter field 0.
\<close>

theorem update_counter_behaviour_witness:
  "update_counter \<lparr>device = 1, process = 2, secret = [], last_generated = 1700000005,
                    generation_counter = 41\<rparr> 1700000005
     = \<lparr>device = 1, process = 2, secret = [], last_generated = 1700000005,
         generation_counter = 42\<rparr>
   \<and> update_counter \<lparr>device = 1, process = 2, secret = [], last_generated = 1700000005,
                      generation_counter = 41\<rparr> 1700000000
     = \<lparr>device = 1, process = 2, secret = [], last_generated = 1700000000,
         generation_counter = 0\<rparr>
   \<and> generation_counter
         (fst (generate_bytes
                 (fst (generate_bytes \<lparr>device = 1, process = 2, secret = [],
                                        last_generated = 1700000005, generation_counter = 41\<rparr>
                         1700000005 7))
                 1700000000 7)) = 0
   \<and> (\<exists>flake. snd (generate_bytes
                 (fst (generate_bytes \<lparr>device = 1, process = 2, secret = [],
                                        last_generated = 1700000005, generation_counter = 41\<rparr>
                         1700000005 7))
                 1700000000 7) = Inr flake
          \<and> counter_field flake = 0 \<and> length flake = 50 \<and> take 2 (drop 4 flake) = [0, 0]
          \<and> payload_field flake
              = [7, 0, 0, 0, 0, 0, 2, 0, 0, 0, 1, 0, 0, 0, 0x00, 0xF1, 0x53, 0x65])"
proof -
  let ?g = "\<lparr>device = 1, process = 2, secret = [], last_generated = 1700000005,
             generation_counter = 41\<rparr>"
  let ?run = "snd (generate_bytes (fst (generate_bytes ?g 1700000005 7)) 1700000000 7)"
  have same: "update_counter ?g 1700000005 = ?g\<lparr>generation_counter := generation_counter ?g + 1\<rparr>"
    using update_counter_behaviour [of 1700000005 ?g] by simp
  have new: "update_counter ?g 1700000000 = ?g\<lparr>last_generated := 1700000000, generation_counter := 0\<rparr>"
    using update_counter_behaviour [of 1700000000 ?g] by simp
  have two: "generation_counter (fst (generate_bytes (fst (generate_bytes ?g 1700000005 7)) 1700000000 7)) = 0
      \<and> (\<forall>flake. ?run = Inr flake
               \<longrightarrow> counter_field flake = 0
                 \<and> length flake = 50
                 \<and> take 2 (drop 4 flake) = [0, 0]
                 \<and> flake = little_endian 4 7 @ [0, 0]
                           @ little_endian 4 (process ?g)
                           @ little_endian 4 (device ?g)
                           @ little_endian 4 1700000000
                           @ signature_field flake
                 \<and> signature_field flake = sha256 (payload_field flake @ secret ?g))
      \<and> (\<exists>flake. ?run = Inr flake)"
  proof -
    have differ: "(1700000000 :: int) \<noteq> 1700000005"
      by simp
    have pre: "(0 \<le> (7 :: int) \<and> (7 :: int) < 2 ^ 32)
             \<and> (0 \<le> process ?g \<and> process ?g < 2 ^ 32)
             \<and> (0 \<le> device ?g \<and> device ?g < 2 ^ 32)
             \<and> (0 \<le> (1700000000 :: int) \<and> (1700000000 :: int) < 2 ^ 32)"
      by simp
    from update_counter_behaviour [of 0 ?g 1700000000 1700000005 7 7] differ pre
    show ?thesis
      by blast
  qed
  then obtain flake where run: "?run = Inr flake"
    by blast
  with two have fields: "counter_field flake = 0" "length flake = 50"
    "take 2 (drop 4 flake) = [0, 0]"
    and layout: "flake = little_endian 4 7 @ [0, 0]
                           @ little_endian 4 (process ?g)
                           @ little_endian 4 (device ?g)
                           @ little_endian 4 1700000000
                           @ signature_field flake"
    by blast+
  have "payload_field flake = [7, 0, 0, 0, 0, 0, 2, 0, 0, 0, 1, 0, 0, 0, 0x00, 0xF1, 0x53, 0x65]"
    by (subst layout) (simp add: payload_field_def field_sizes little_endian_numeral)
  with run fields have "\<exists>flake. ?run = Inr flake
          \<and> counter_field flake = 0 \<and> length flake = 50 \<and> take 2 (drop 4 flake) = [0, 0]
          \<and> payload_field flake
              = [7, 0, 0, 0, 0, 0, 2, 0, 0, 0, 1, 0, 0, 0, 0x00, 0xF1, 0x53, 0x65]"
    by blast
  with same new two show ?thesis
    by simp
qed

subsection \<open>C5: the layout of a token\<close>

text \<open>
  C5. Every token that \<open>generate_bytes\<close> returns has exactly 50 bytes: the identifier in 4
  bytes, the counter in 2, process, device and tick in 4 each, and the signature in 32,
  every number little-endian. Read back at these offsets, the fields are the identifier
  of the call, the advanced counter, process, device and the tick. \<open>generate\<close> returns the
  number whose base-256 digits, least significant first, are these 50 bytes. (In
  \<open>little_endian k n\<close> the byte at index \<open>i\<close> is the digit of weight \<open>256^i\<close>: lemma
  \<open>little_endian_nth\<close>.)
\<close>

theorem token_layout:
  assumes "snd (generate_bytes self tick identifier) = Inr flake"
  shows "length flake = 50
       \<and> flake = little_endian 4 identifier
                 @ little_endian 2 (generation_counter (update_counter self tick))
                 @ little_endian 4 (process self)
                 @ little_endian 4 (device self)
                 @ little_endian 4 tick
                 @ signature_field flake
       \<and> length (signature_field flake) = 32
       \<and> identifier_field flake = identifier
       \<and> counter_field flake = generation_counter (update_counter self tick)
       \<and> process_field flake = process self
       \<and> device_field flake = device self
       \<and> tick_field flake = tick
       \<and> snd (generate self tick identifier) = Inr (from_bytes flake)
       \<and> from_bytes flake = (\<Sum>i<50. uint (flake ! i) * 256 ^ i)"
proof -
  let ?s = "update_counter self tick"
  have enc: "encodable self tick identifier"
    and flake: "flake = signed_token ?s tick identifier"
    using assms by (rule generate_bytes_Inr)+
  have len: "length flake = 50"
    by (simp add: flake)
  have layout: "flake = little_endian 4 identifier
                 @ little_endian 2 (generation_counter ?s)
                 @ little_endian 4 (process self)
                 @ little_endian 4 (device self)
                 @ little_endian 4 tick
                 @ signature_field flake"
    unfolding flake signature_field_signed_token
    by (simp add: signed_token_def payload_bytes_def field_sizes)
  have sig: "length (signature_field flake) = 32"
    by (simp add: flake get_signature_def)
  have fields: "identifier_field flake = identifier"
    "counter_field flake = generation_counter ?s"
    "process_field flake = process self"
    "device_field flake = device self"
    "tick_field flake = tick"
    using enc unfolding flake encodable_def
    by (simp_all add: identifier_field_signed_token counter_field_signed_token
        process_field_signed_token device_field_signed_token tick_field_signed_token)
  have num: "snd (generate self tick identifier) = Inr (from_bytes flake)"
    by (simp add: generate_eq assms)
  have "from_bytes flake = (\<Sum>i<length flake. uint (flake ! i) * 256 ^ i)"
    by (rule from_bytes_sum)
  then have sum: "from_bytes flake = (\<Sum>i<50. uint (flake ! i) * 256 ^ i)"
    unfolding len .
  from len layout sig fields num sum show ?thesis
    by blast
qed

text \<open>
  The first token of a fresh instance with device 1 and process 2, at tick 1700000000
  (\<open>0x6553F100\<close>) with identifier 7: the 18 payload bytes, the length, and the number.
\<close>

theorem token_layout_witness:
  "payload_field
     (signed_token \<lparr>device = 1, process = 2, secret = [], last_generated = 1700000000,
                     generation_counter = 0\<rparr> 1700000000 7)
     = [7, 0, 0, 0, 0, 0, 2, 0, 0, 0, 1, 0, 0, 0, 0x00, 0xF1, 0x53, 0x65]
   \<and> length
       (signed_token \<lparr>device = 1, process = 2, secret = [], last_generated = 1700000000,
                       generation_counter = 0\<rparr> 1700000000 7) = 50
   \<and> snd (generate \<lparr>device = 1, process = 2, secret = [], last_generated = 0,
                      generation_counter = 0\<rparr> 1700000000 7)
       = Inr (from_bytes
           (signed_token \<lparr>device = 1, process = 2, secret = [], last_generated = 1700000000,
                           generation_counter = 0\<rparr> 1700000000 7))"
proof -
  let ?g = "\<lparr>device = 1, process = 2, secret = [], last_generated = 0, generation_counter = 0\<rparr>"
  let ?g' = "\<lparr>device = 1, process = 2, secret = [], last_generated = 1700000000,
              generation_counter = 0\<rparr>"
  let ?flake = "signed_token ?g' 1700000000 7"
  have upd: "update_counter ?g 1700000000 = ?g'"
    by (simp add: update_counter_def)
  have "encodable ?g 1700000000 7"
    by (simp add: encodable_iff upd)
  then have run: "snd (generate_bytes ?g 1700000000 7) = Inr ?flake"
    by (simp add: generate_bytes_encodable upd)
  have layout: "?flake = little_endian 4 7
                 @ little_endian 2 (generation_counter (update_counter ?g 1700000000))
                 @ little_endian 4 (process ?g)
                 @ little_endian 4 (device ?g)
                 @ little_endian 4 1700000000
                 @ signature_field ?flake"
    and len: "length ?flake = 50"
    and num: "snd (generate ?g 1700000000 7) = Inr (from_bytes ?flake)"
    using token_layout [OF run] by blast+
  have "payload_field ?flake = [7, 0, 0, 0, 0, 0, 2, 0, 0, 0, 1, 0, 0, 0, 0x00, 0xF1, 0x53, 0x65]"
    by (subst layout) (simp add: payload_field_def field_sizes upd little_endian_numeral)
  with len num show ?thesis
    by blast
qed

subsection \<open>C6: the signature\<close>



subsection \<open>C7: an identifier out of range\<close>

text \<open>
  C7. For every identifier that does not fit four unsigned bytes (\<open>2^32\<close> or more, or
  negative), \<open>generate\<close> and \<open>generate_bytes\<close> raise and return no token. The error is
  Python's \<open>OverflowError\<close>, raised by \<open>identifier.to_bytes\<close>: the out-of-range error of
  the specification.
\<close>

theorem identifier_out_of_range:
  assumes "identifier < 0 \<or> 2 ^ 32 \<le> identifier"
  shows "snd (generate self tick identifier) = Inl OverflowError
       \<and> snd (generate_bytes self tick identifier) = Inl OverflowError"
  using assms
  by (simp add: generate_eq generate_bytes_not_encodable not_encodable_identifier)

text \<open>The identifier \<open>2^32\<close>, the least that does not fit.\<close>

theorem identifier_out_of_range_witness:
  "snd (generate \<lparr>device = 1, process = 2, secret = [], last_generated = 0,
                   generation_counter = 0\<rparr> 1700000000 (2 ^ 32))
     = Inl OverflowError
   \<and> snd (generate_bytes \<lparr>device = 1, process = 2, secret = [], last_generated = 0,
                            generation_counter = 0\<rparr> 1700000000 (2 ^ 32))
     = Inl OverflowError"
  using identifier_out_of_range [of "2 ^ 32"] by simp

subsection \<open>C8: when \<open>validate\<close> raises\<close>

text \<open>
  C8. \<open>validate\<close> raises exactly when its argument is negative or at least \<open>2^400\<close>, that
  is, when it is not a number of 50 unsigned bytes. For every other argument it returns a
  boolean: whether the last 32 of the 50 bytes equal the signature of the first 18. A
  signature that does not match gives \<open>False\<close>, not an error.
\<close>

theorem validate_raises_iff:
  "(validate self flake = Inl OverflowError \<longleftrightarrow> flake < 0 \<or> 2 ^ 400 \<le> flake)
   \<and> (0 \<le> flake \<and> flake < 2 ^ 400 \<longrightarrow>
        validate self flake =
          Inr (signature_field (little_endian 50 flake)
               = get_signature self (payload_field (little_endian 50 flake))))"
proof (cases "fits 50 flake")
  case True
  then have "0 \<le> flake \<and> flake < 2 ^ 400"
    unfolding fits_def pow_256_50 .
  moreover have "validate self flake =
          Inr (signature_field (little_endian 50 flake)
               = get_signature self (payload_field (little_endian 50 flake)))"
    using True by (simp add: validate_fits signature_field_def payload_field_def field_sizes)
  ultimately show ?thesis
    by simp
next
  case False
  then have "flake < 0 \<or> 2 ^ 400 \<le> flake"
    unfolding fits_def pow_256_50 by auto
  moreover have "validate self flake = Inl OverflowError"
    using False by (rule validate_not_fits)
  ultimately show ?thesis
    by auto
qed

text \<open>
  The number 0 is 50 zero bytes; its last 32 bytes are not the digest of its first 18, so
  \<open>validate\<close> returns \<open>False\<close>. The numbers \<open>2^400\<close> and \<open>-1\<close> make it raise.
\<close>

theorem validate_raises_iff_witness:
  "validate \<lparr>device = 1, process = 2, secret = [], last_generated = 0,
              generation_counter = 0\<rparr> 0 = Inr False
   \<and> validate \<lparr>device = 1, process = 2, secret = [], last_generated = 0,
                generation_counter = 0\<rparr> (2 ^ 400) = Inl OverflowError
   \<and> validate \<lparr>device = 1, process = 2, secret = [], last_generated = 0,
                generation_counter = 0\<rparr> (- 1) = Inl OverflowError"
proof -
  let ?g = "\<lparr>device = 1, process = 2, secret = [], last_generated = 0, generation_counter = 0\<rparr>"
  have "validate ?g 0 =
          Inr (signature_field (little_endian 50 0)
               = get_signature ?g (payload_field (little_endian 50 0)))"
    using validate_raises_iff [of ?g 0] by simp
  moreover have "signature_field (little_endian 50 0) = replicate 32 (0 :: byte)"
    by (simp add: little_endian_zero signature_field_def field_sizes)
  moreover have "payload_field (little_endian 50 0) = replicate 18 (0 :: byte)"
    by (simp add: little_endian_zero payload_field_def field_sizes)
  moreover have "get_signature ?g (replicate 18 0) \<noteq> replicate 32 0"
  proof
    assume "get_signature ?g (replicate 18 0) = replicate 32 0"
    then have "hd (get_signature ?g (replicate 18 0)) = hd (replicate 32 (0 :: byte))"
      by (rule arg_cong)
    then show False
      by (simp add: get_signature_def sha256_zero_payload)
  qed
  ultimately have zero: "validate ?g 0 = Inr False"
    by simp
  have "validate ?g (2 ^ 400) = Inl OverflowError"
    using validate_raises_iff [of ?g "2 ^ 400"] by simp
  moreover have "validate ?g (- 1) = Inl OverflowError"
    using validate_raises_iff [of ?g "- 1"] by simp
  ultimately show ?thesis
    using zero by simp
qed

subsection \<open>C9: the default of \<open>process\<close>\<close>

text \<open>
  C9. The claim reads: without a \<open>process\<close> argument, the instance's process is the
  identifier that the operating system gives the running process. The constructor's
  default is \<open>lambda: os.P_PID\<close>: it stores the module constant \<open>os.P_PID\<close>, and the
  stored value is the same whatever the identifier of the process is.
\<close>

theorem default_process_is_P_PID:
  "process (Flakely_init env device_arg None secret_arg) = os_P_PID env
   \<and> process (Flakely_init (env\<lparr>os_getpid := pid\<rparr>) device_arg None secret_arg)
       = process (Flakely_init env device_arg None secret_arg)"
  by (simp add: Flakely_init_def use_if_set_else_def)

subsection \<open>C10: a failed call has already advanced the sequencer\<close>

text \<open>
  C10. \<open>generate_bytes\<close> calls \<open>update_counter\<close> before it encodes the identifier. When the
  identifier is out of range the call raises, and the instance it leaves behind is the one
  \<open>update_counter\<close> produced: the tick is stored, the counter is advanced or reset, and the
  instance differs from the one before the call.
\<close>

theorem failed_generate_mutates:
  assumes "identifier < 0 \<or> 2 ^ 32 \<le> identifier"
  shows "generate self tick identifier = (update_counter self tick, Inl OverflowError)
       \<and> generate_bytes self tick identifier = (update_counter self tick, Inl OverflowError)
       \<and> update_counter self tick \<noteq> self
       \<and> last_generated (update_counter self tick) = tick
       \<and> generation_counter (update_counter self tick) =
           (if tick = last_generated self then generation_counter self + 1 else 0)"
proof -
  have "\<not> encodable self tick identifier"
    using assms by (rule not_encodable_identifier)
  then have "generate_bytes self tick identifier = (update_counter self tick, Inl OverflowError)"
    by (rule generate_bytes_not_encodable)
  moreover from this
  have "generate self tick identifier = (update_counter self tick, Inl OverflowError)"
    by (simp add: generate_eq)
  moreover have "generation_counter (update_counter self tick) =
           (if tick = last_generated self then generation_counter self + 1 else 0)"
    by (simp add: update_counter_def)
  ultimately show ?thesis
    by (simp add: update_counter_changes)
qed

text \<open>
  An instance with the counter 3 at tick 1700000000: a failed call at the same tick
  leaves the counter 4, a failed call at the next tick leaves the new tick and the
  counter 0.
\<close>

theorem failed_generate_mutates_witness:
  "generate \<lparr>device = 1, process = 2, secret = [], last_generated = 1700000000,
              generation_counter = 3\<rparr> 1700000000 (2 ^ 32)
     = (\<lparr>device = 1, process = 2, secret = [], last_generated = 1700000000,
          generation_counter = 4\<rparr>, Inl OverflowError)
   \<and> generate \<lparr>device = 1, process = 2, secret = [], last_generated = 1700000000,
                generation_counter = 3\<rparr> 1700000001 (- 1)
     = (\<lparr>device = 1, process = 2, secret = [], last_generated = 1700000001,
          generation_counter = 0\<rparr>, Inl OverflowError)"
  using failed_generate_mutates [of "2 ^ 32" "\<lparr>device = 1, process = 2, secret = [],
                 last_generated = 1700000000, generation_counter = 3\<rparr>" 1700000000]
    failed_generate_mutates [of "- 1" "\<lparr>device = 1, process = 2, secret = [],
                 last_generated = 1700000000, generation_counter = 3\<rparr>" 1700000001]
  by (simp add: update_counter_def)

end
